theory Spec2Isabelle
  imports Complex_Main "HOL-Library.AList"
begin

section \<open>Python values\<close>

text \<open>
  The client passes untyped dictionaries between its layers (\<open>Dict[str, Any]\<close>), so the
  model works on Python values directly. A dictionary is an association list in insertion
  order; lookups read the first entry of a key. A float is a rational or one of the three
  special values; only comparison with a constant is ever computed on floats.
\<close>

datatype pyfloat = Finite rat | PosInf | NegInf | NaN

datatype json =
    JNone
  | JBool bool
  | JInt int
  | JFloat pyfloat
  | JStr string
  | JList "json list"
  | JDict "(string \<times> json) list"

datatype py_error =
    KeyError string
  | TypeError
  | AttributeError
  | StopIteration
  | HTTPError nat
  | JSONDecodeError
  | NotFoundError
  | TransportError string
  | BulkIndexError "json list"
  | RuntimeError "json list"

type_synonym pydict = "(string \<times> json) list"

text \<open>Truth value testing, as \<open>if x:\<close>, \<open>not x\<close> and \<open>x or y\<close> use it.\<close>

fun py_truthy :: "json \<Rightarrow> bool" where
  "py_truthy JNone = False"
| "py_truthy (JBool b) = b"
| "py_truthy (JInt i) = (i \<noteq> 0)"
| "py_truthy (JFloat (Finite r)) = (r \<noteq> 0)"
| "py_truthy (JFloat _) = True"
| "py_truthy (JStr s) = (s \<noteq> [])"
| "py_truthy (JList xs) = (xs \<noteq> [])"
| "py_truthy (JDict d) = (d \<noteq> [])"

definition py_or :: "json \<Rightarrow> json \<Rightarrow> json" where
  "py_or a b = (if py_truthy a then a else b)"

text \<open>\<open>d.get(k, default)\<close>; \<open>d.get(k)\<close> is the case \<open>default = None\<close>.\<close>

definition dict_get :: "pydict \<Rightarrow> string \<Rightarrow> json \<Rightarrow> json" where
  "dict_get d k dflt = (case map_of d k of None \<Rightarrow> dflt | Some v \<Rightarrow> v)"

text \<open>\<open>d[k]\<close>, which raises \<open>KeyError\<close> on a missing key.\<close>

definition dict_item :: "pydict \<Rightarrow> string \<Rightarrow> py_error + json" where
  "dict_item d k = (case map_of d k of None \<Rightarrow> Inl (KeyError k) | Some v \<Rightarrow> Inr v)"

text \<open>\<open>k in d\<close> on a dictionary.\<close>

definition dict_has :: "pydict \<Rightarrow> string \<Rightarrow> bool" where
  "dict_has d k = (map_of d k \<noteq> None)"

text \<open>Reading a key of a value that may not be a dictionary (used to state properties).\<close>

fun json_field :: "json \<Rightarrow> string \<Rightarrow> json option" where
  "json_field (JDict d) k = map_of d k"
| "json_field _ k = None"

text \<open>
  \<open>x != f\<close> for a float constant \<open>f\<close>: booleans and integers compare by their numeric
  value, exactly; every other kind of value is unequal to a float; NaN is unequal to
  everything.
\<close>

fun py_num :: "json \<Rightarrow> pyfloat option" where
  "py_num (JBool b) = Some (Finite (if b then 1 else 0))"
| "py_num (JInt i) = Some (Finite (of_int i))"
| "py_num (JFloat f) = Some f"
| "py_num _ = None"

definition py_ne_float :: "json \<Rightarrow> pyfloat \<Rightarrow> bool" where
  "py_ne_float x f = (case py_num x of None \<Rightarrow> True | Some g \<Rightarrow> g = NaN \<or> f = NaN \<or> g \<noteq> f)"

section \<open>Query builders\<close>

subsection \<open>\<open>_criteria_filters\<close>\<close>

definition facet_fields_list :: "string list" where
  "facet_fields_list = [''industry'', ''sector'', ''region'', ''currency'']"

definition terms_clause :: "string \<Rightarrow> json \<Rightarrow> json" where
  "terms_clause field vals = JDict [(''terms'', JDict [(field, vals)])]"

text \<open>The \<open>for field in [...]\<close> loop, with the list \<open>filters\<close> it appends to.\<close>

fun criteria_filters_loop :: "pydict \<Rightarrow> string list \<Rightarrow> json list \<Rightarrow> json list" where
  "criteria_filters_loop criteria [] filters = filters"
| "criteria_filters_loop criteria (field # rest) filters =
     (let vals = py_or (dict_get criteria field JNone) (JList [])
      in if py_truthy vals
         then criteria_filters_loop criteria rest (filters @ [terms_clause field vals])
         else criteria_filters_loop criteria rest filters)"

definition criteria_filters :: "pydict \<Rightarrow> json list" where
  "criteria_filters criteria = criteria_filters_loop criteria facet_fields_list []"

subsection \<open>\<open>_multi_match_clause\<close>\<close>

text \<open>
  \<open>tq["query"]\<close> on anything but a dictionary is a \<open>TypeError\<close>; on a dictionary a
  missing \<open>query\<close> or \<open>fields\<close> key is a \<open>KeyError\<close>.
\<close>

definition multi_match_clause :: "json \<Rightarrow> py_error + json" where
  "multi_match_clause tq =
     (case tq of
        JDict d \<Rightarrow>
          (case dict_item d ''query'' of
             Inl e \<Rightarrow> Inl e
           | Inr q \<Rightarrow>
              (case dict_item d ''fields'' of
                 Inl e \<Rightarrow> Inl e
               | Inr fs \<Rightarrow>
                  (let mm = [(''query'', q), (''fields'', fs),
                             (''type'', dict_get d ''type'' (JStr ''best_fields'')),
                             (''operator'', dict_get d ''operator'' (JStr ''or''))];
                       boost = dict_get d ''boost'' JNone
                   in Inr (JDict [(''multi_match'',
                        JDict (if boost \<noteq> JNone \<and> py_ne_float boost (Finite 1)
                               then AList.update ''boost'' boost mm else mm))]))))
      | _ \<Rightarrow> Inl TypeError)"

subsection \<open>\<open>build_bool_query\<close>\<close>

text \<open>
  What \<open>for tq in v\<close> iterates over: the elements of a list, the keys of a dictionary,
  the characters of a string; other values are not iterable.
\<close>

fun py_iter :: "json \<Rightarrow> py_error + json list" where
  "py_iter (JList xs) = Inr xs"
| "py_iter (JDict d) = Inr (map (\<lambda>kv. JStr (fst kv)) d)"
| "py_iter (JStr s) = Inr (map (\<lambda>c. JStr [c]) s)"
| "py_iter _ = Inl TypeError"

text \<open>The loop \<open>for tq in ...: must.append(self._multi_match_clause(tq))\<close>.\<close>

fun multi_match_clauses :: "json list \<Rightarrow> json list \<Rightarrow> py_error + json list" where
  "multi_match_clauses [] acc = Inr acc"
| "multi_match_clauses (tq # rest) acc =
     (case multi_match_clause tq of
        Inl e \<Rightarrow> Inl e
      | Inr c \<Rightarrow> multi_match_clauses rest (acc @ [c]))"

definition text_clauses :: "pydict \<Rightarrow> string \<Rightarrow> py_error + json list" where
  "text_clauses request key =
     (case py_iter (py_or (dict_get request key (JList [])) (JList [])) of
        Inl e \<Rightarrow> Inl e
      | Inr tqs \<Rightarrow> multi_match_clauses tqs [])"

definition build_bool_query :: "pydict \<Rightarrow> py_error + json" where
  "build_bool_query request =
     (case py_or (dict_get request ''criteria'' JNone) (JDict []) of
        JDict criteria \<Rightarrow>
          (let filters = criteria_filters criteria in
           case text_clauses request ''must_text'' of
             Inl e \<Rightarrow> Inl e
           | Inr must \<Rightarrow>
              (case text_clauses request ''should_text'' of
                 Inl e \<Rightarrow> Inl e
               | Inr should \<Rightarrow>
                  (let minimum_should_match = dict_get request ''minimum_should_match'' (JInt 1);
                       minimum_should_match = (if should = [] then JInt 0 else minimum_should_match)
                   in Inr (JDict [(''bool'', JDict [
                        (''filter'', JList filters),
                        (''must'', JList must),
                        (''should'', JList should),
                        (''minimum_should_match'', minimum_should_match)])]))))
      | _ \<Rightarrow> Inl AttributeError)"

text \<open>The \<open>minimum_should_match\<close> entry of a compiled boolean query.\<close>

definition query_msm :: "json \<Rightarrow> json option" where
  "query_msm q = (case json_field q ''bool'' of None \<Rightarrow> None | Some b \<Rightarrow> json_field b ''minimum_should_match'')"


text \<open>Whether a compiled text clause carries a \<open>boost\<close> key.\<close>

definition clause_has_boost :: "json \<Rightarrow> bool" where
  "clause_has_boost c =
     (case json_field c ''multi_match'' of None \<Rightarrow> False | Some m \<Rightarrow> json_field m ''boost'' \<noteq> None)"

section \<open>The client and the engine behind it\<close>

text \<open>
  \<open>self.client\<close> is the engine handle. Its calls are parameters of the model: a search
  and a lookup by id, either of which returns a response or raises. \<open>os_write\<close> is the
  engine's verdict on one bulk action, \<open>None\<close> for a success marker and \<open>Some e\<close> for
  the error descriptor \<open>e\<close>.
\<close>

record OpenSearch =
  os_search :: "string \<Rightarrow> json \<Rightarrow> py_error + json"
  os_get :: "string \<Rightarrow> string \<Rightarrow> string list option \<Rightarrow> py_error + json"
  os_write :: "json \<Rightarrow> json option"

record MemoOpenSearchClient =
  index :: string
  client :: OpenSearch

definition DEFAULT_FACET_FIELDS :: "string list" where
  "DEFAULT_FACET_FIELDS = [''industry'', ''sector'', ''region'', ''currency'']"

text \<open>\<open>x.get(k, default)\<close> on a value that need not be a dictionary.\<close>

fun py_get :: "json \<Rightarrow> string \<Rightarrow> json \<Rightarrow> py_error + json" where
  "py_get (JDict d) k dflt = Inr (dict_get d k dflt)"
| "py_get _ k dflt = Inl AttributeError"

subsection \<open>\<open>get_memo\<close>\<close>

definition get_memo :: "MemoOpenSearchClient \<Rightarrow> string \<Rightarrow> string list option \<Rightarrow> py_error + json" where
  "get_memo self doc_id source_includes =
     (case os_get (client self) (index self) doc_id source_includes of
        Inl e \<Rightarrow> (if e = NotFoundError then Inr JNone else Inl e)
      | Inr doc \<Rightarrow> Inr doc)"

subsection \<open>\<open>search\<close>\<close>

text \<open>The request body that \<open>search\<close> assembles around the compiled query.\<close>

definition facet_aggs :: "string list \<Rightarrow> pydict" where
  "facet_aggs facet_fields =
     foldl (\<lambda>aggs f. AList.update (f @ ''_facet'')
                        (JDict [(''terms'', JDict [(''field'', JStr f), (''size'', JInt 50)])]) aggs)
           [] facet_fields"

definition search_body :: "pydict \<Rightarrow> bool \<Rightarrow> string list option \<Rightarrow> json \<Rightarrow> pydict" where
  "search_body request facets facet_fields query =
     (let facet_fields = (case facet_fields of
                            None \<Rightarrow> DEFAULT_FACET_FIELDS
                          | Some fs \<Rightarrow> if fs = [] then DEFAULT_FACET_FIELDS else fs);
          body = [(''query'', query),
                  (''size'', dict_get request ''size'' (JInt 10)),
                  (''from'', dict_get request ''from_'' (dict_get request ''from'' (JInt 0))),
                  (''track_total_hits'', dict_get request ''track_total_hits'' (JBool True))];
          body = (if py_truthy (dict_get request ''explain'' JNone)
                  then AList.update ''explain'' (JBool True) body else body);
          body = (if py_truthy (dict_get request ''sort'' JNone)
                  then AList.update ''sort'' (dict_get request ''sort'' JNone) body else body);
          src_in = dict_get request ''source_includes'' JNone;
          src_ex = dict_get request ''source_excludes'' JNone;
          body = (if src_in \<noteq> JNone \<or> src_ex \<noteq> JNone
                  then AList.update ''_source''
                         (JDict ((if src_in \<noteq> JNone then [(''includes'', src_in)] else []) @
                                 (if src_ex \<noteq> JNone then [(''excludes'', src_ex)] else []))) body
                  else body)
      in if facets then AList.update ''aggs'' (JDict (facet_aggs facet_fields)) body else body)"

text \<open>
  The envelope built from the engine's response: \<open>total\<close> is read from \<open>hits.total\<close>,
  through its \<open>value\<close> key when it is a dictionary.
\<close>

definition search_envelope :: "json \<Rightarrow> pydict \<Rightarrow> py_error + json" where
  "search_envelope resp body =
     (case py_get resp ''hits'' (JDict []) of
        Inl e \<Rightarrow> Inl e
      | Inr h \<Rightarrow>
         (case py_get h ''hits'' (JList []) of
            Inl e \<Rightarrow> Inl e
          | Inr hits \<Rightarrow>
             (case py_get h ''total'' (JDict []) of
                Inl e \<Rightarrow> Inl e
              | Inr hits_total \<Rightarrow>
                 (let total_value = (case hits_total of
                                       JDict t \<Rightarrow> dict_get t ''value'' JNone
                                     | _ \<Rightarrow> hits_total)
                  in case py_get resp ''aggregations'' (JDict []) of
                       Inl e \<Rightarrow> Inl e
                     | Inr aggregations \<Rightarrow>
                        Inr (JDict [(''total'', total_value),
                                    (''hits'', hits),
                                    (''aggregations'', aggregations),
                                    (''raw'', resp),
                                    (''query'', JDict body)])))))"

definition search :: "MemoOpenSearchClient \<Rightarrow> pydict \<Rightarrow> bool \<Rightarrow> string list option \<Rightarrow> py_error + json" where
  "search self request facets facet_fields =
     (case build_bool_query request of
        Inl e \<Rightarrow> Inl e
      | Inr query \<Rightarrow>
         (let body = search_body request facets facet_fields query
          in case os_search (client self) (index self) (JDict body) of
               Inl e \<Rightarrow> Inl e
             | Inr resp \<Rightarrow> search_envelope resp body))"

subsection \<open>\<open>bulk_upsert\<close>\<close>

text \<open>
  Modelled from the spec: \<open>helpers.bulk\<close> of the \<open>opensearchpy\<close> package, which
  \<open>bulk_upsert\<close> calls and which is not part of the sources. The spec's words: actions
  are submitted in fixed-size chunks; each action is independent; a response carries, per
  action, either a success marker or an error object; with \<open>raise_on_error=False\<close> a
  document's failure does not raise, the following chunks are still submitted, and the
  outcome combines the count of successes with the list of per-document errors. A chunk
  size of 0, for which the spec fixes nothing, sends all actions in one request. With
  \<open>raise_on_error=True\<close> (never passed by this client) the first chunk holding a failed
  action raises.
\<close>

function chunk_actions :: "nat \<Rightarrow> 'a list \<Rightarrow> 'a list list" where
  "chunk_actions chunk_size actions =
     (if actions = [] then []
      else if chunk_size = 0 then [actions]
      else take chunk_size actions # chunk_actions chunk_size (drop chunk_size actions))"
  by pat_completeness auto
termination
  by (relation "measure (\<lambda>(chunk_size, actions). length actions)") auto

declare chunk_actions.simps [simp del]

fun bulk_loop ::
  "(json \<Rightarrow> json option) \<Rightarrow> bool \<Rightarrow> json list list \<Rightarrow> nat \<Rightarrow> json list \<Rightarrow> py_error + nat \<times> json list"
where
  "bulk_loop write raise_on_error [] success errors = Inr (success, errors)"
| "bulk_loop write raise_on_error (chunk # rest) success errors =
     (let items = map write chunk;
          failed = List.map_filter (\<lambda>item. item) items
      in if raise_on_error \<and> failed \<noteq> [] then Inl (BulkIndexError failed)
         else bulk_loop write raise_on_error rest
                (success + length (filter (\<lambda>item. item = None) items)) (errors @ failed))"

definition helpers_bulk ::
  "(json \<Rightarrow> json option) \<Rightarrow> json list \<Rightarrow> nat \<Rightarrow> bool \<Rightarrow> py_error + nat \<times> json list"
where
  "helpers_bulk write actions chunk_size raise_on_error =
     bulk_loop write raise_on_error (chunk_actions chunk_size actions) 0 []"

text \<open>The generator \<open>gen_actions\<close> and \<open>bulk_upsert\<close> itself, from the source.\<close>

definition gen_actions :: "MemoOpenSearchClient \<Rightarrow> (string \<times> json) list \<Rightarrow> json list" where
  "gen_actions self docs =
     map (\<lambda>(doc_id, doc). JDict [(''_op_type'', JStr ''index''),
                                  (''_index'', JStr (index self)),
                                  (''_id'', JStr doc_id),
                                  (''_source'', doc)]) docs"

definition bulk_upsert :: "MemoOpenSearchClient \<Rightarrow> (string \<times> json) list \<Rightarrow> nat \<Rightarrow> py_error + json" where
  "bulk_upsert self docs chunk_size =
     (case helpers_bulk (os_write (client self)) (gen_actions self docs) chunk_size False of
        Inl e \<Rightarrow> Inl e
      | Inr (success, errors) \<Rightarrow>
          Inr (JDict [(''success'', JInt (int success)), (''errors'', JList errors)]))"

section \<open>The standalone ingestion utility\<close>

text \<open>
  \<open>requests.post\<close> is a parameter: it returns a response or raises. A response has a
  status code and a body that parses as JSON or does not.
\<close>

record Response =
  status_code :: nat
  json_body :: "json option"

definition raise_for_status :: "Response \<Rightarrow> py_error + unit" where
  "raise_for_status resp =
     (if 400 \<le> status_code resp \<and> status_code resp < 600
      then Inl (HTTPError (status_code resp)) else Inr ())"

definition rstrip_slash :: "string \<Rightarrow> string" where
  "rstrip_slash s = rev (dropWhile (\<lambda>c. c = CHR ''/'') (rev s))"

fun join_newline :: "string list \<Rightarrow> string" where
  "join_newline [] = []"
| "join_newline [l] = l"
| "join_newline (l # ls) = l @ [CHR 0x0A] @ join_newline ls"

text \<open>\<open>next(iter(it.values()))\<close>: the first value of a dictionary.\<close>

fun first_value :: "json \<Rightarrow> py_error + json" where
  "first_value (JDict []) = Inl StopIteration"
| "first_value (JDict (kv # _)) = Inr (snd kv)"
| "first_value _ = Inl AttributeError"

fun is_substring :: "string \<Rightarrow> string \<Rightarrow> bool" where
  "is_substring p [] = (p = [])"
| "is_substring p (c # s) = (take (length p) (c # s) = p \<or> is_substring p s)"

text \<open>\<open>"error" in action\<close> and \<open>action["error"]\<close>, on whatever \<open>action\<close> is.\<close>

fun py_contains :: "json \<Rightarrow> string \<Rightarrow> py_error + bool" where
  "py_contains (JDict d) k = Inr (dict_has d k)"
| "py_contains (JList xs) k = Inr (JStr k \<in> set xs)"
| "py_contains (JStr s) k = Inr (is_substring k s)"
| "py_contains _ k = Inl TypeError"

fun py_item :: "json \<Rightarrow> string \<Rightarrow> py_error + json" where
  "py_item (JDict d) k = dict_item d k"
| "py_item _ k = Inl TypeError"

text \<open>
  The loop over \<open>items\<close>, with the list \<open>errors\<close> it appends to; it stops once the
  list holds 3 entries.
\<close>

fun collect_errors :: "json list \<Rightarrow> json list \<Rightarrow> py_error + json list" where
  "collect_errors [] errors = Inr errors"
| "collect_errors (it # items) errors =
     (case first_value it of
        Inl e \<Rightarrow> Inl e
      | Inr action \<Rightarrow>
         (case py_contains action ''error'' of
            Inl e \<Rightarrow> Inl e
          | Inr found \<Rightarrow>
             (case (if found
                    then (case py_item action ''error'' of
                            Inl e \<Rightarrow> Inl e
                          | Inr payload \<Rightarrow> Inr (errors @ [payload]))
                    else Inr errors) of
                Inl e \<Rightarrow> Inl e
              | Inr errors' \<Rightarrow>
                  if length errors' \<ge> 3 then Inr errors' else collect_errors items errors')))"

text \<open>
  \<open>bulk_index\<close>. The \<open>RuntimeError\<close> carries the sample itself; the source formats it
  into the message with \<open>json.dumps\<close>.
\<close>

definition bulk_index ::
  "(string \<Rightarrow> string \<Rightarrow> py_error + Response) \<Rightarrow> string \<Rightarrow> string list \<Rightarrow> py_error + unit"
where
  "bulk_index requests_post OPENSEARCH_URL ndjson_lines =
     (let url = rstrip_slash OPENSEARCH_URL @ ''/_bulk'';
          payload = join_newline ndjson_lines @ [CHR 0x0A]
      in case requests_post url payload of
           Inl e \<Rightarrow> Inl e
         | Inr resp \<Rightarrow>
            (case raise_for_status resp of
               Inl e \<Rightarrow> Inl e
             | Inr _ \<Rightarrow>
                (case json_body resp of
                   None \<Rightarrow> Inl JSONDecodeError
                 | Some result \<Rightarrow>
                    (case py_get result ''errors'' JNone of
                       Inl e \<Rightarrow> Inl e
                     | Inr flag \<Rightarrow>
                        if py_truthy flag
                        then (case py_get result ''items'' (JList []) of
                                Inl e \<Rightarrow> Inl e
                              | Inr items \<Rightarrow>
                                 (case py_iter items of
                                    Inl e \<Rightarrow> Inl e
                                  | Inr its \<Rightarrow>
                                     (case collect_errors its [] of
                                        Inl e \<Rightarrow> Inl e
                                      | Inr errors \<Rightarrow> Inl (RuntimeError errors))))
                        else Inr ()))))"

text \<open>
  An item of a bulk response as the engine protocol has it: one key, the operation, whose
  value is a dictionary; the item failed when that dictionary has an \<open>error\<close> key.
\<close>

fun item_error :: "json \<Rightarrow> json option" where
  "item_error (JDict ((op, JDict action) # _)) = map_of action ''error''"
| "item_error _ = None"

fun wf_item :: "json \<Rightarrow> bool" where
  "wf_item (JDict ((op, JDict action) # _)) = True"
| "wf_item _ = False"

section \<open>Well-formed requests\<close>

text \<open>
  A request as \<open>SearchRequest.dict(by_alias=True)\<close> produces it: the criteria are a
  dictionary (or absent), and the two text lists hold dictionaries with at least the keys
  \<open>query\<close> and \<open>fields\<close>.
\<close>

fun valid_text_query :: "json \<Rightarrow> bool" where
  "valid_text_query (JDict d) = (dict_has d ''query'' \<and> dict_has d ''fields'')"
| "valid_text_query _ = False"

fun valid_text_list :: "json \<Rightarrow> bool" where
  "valid_text_list (JList tqs) = list_all valid_text_query tqs"
| "valid_text_list v = (\<not> py_truthy v)"

fun valid_criteria :: "json \<Rightarrow> bool" where
  "valid_criteria (JDict d) = True"
| "valid_criteria v = (\<not> py_truthy v)"

definition valid_request :: "pydict \<Rightarrow> bool" where
  "valid_request request =
     (valid_criteria (dict_get request ''criteria'' JNone)
      \<and> valid_text_list (dict_get request ''must_text'' (JList []))
      \<and> valid_text_list (dict_get request ''should_text'' (JList [])))"

section \<open>Properties of the query builders\<close>

subsection \<open>Minimum-should-match correction\<close>

lemma multi_match_clauses_length:
  "multi_match_clauses tqs acc = Inr cs \<Longrightarrow> length cs = length acc + length tqs"
  by (induction tqs arbitrary: acc) (auto split: sum.splits)

lemma text_clauses_empty:
  "\<not> py_truthy (dict_get request key (JList [])) \<Longrightarrow> text_clauses request key = Inr []"
  by (simp add: text_clauses_def py_or_def)

lemma text_clauses_nonempty:
  "py_truthy (dict_get request key (JList [])) \<Longrightarrow> text_clauses request key = Inr cs \<Longrightarrow> cs \<noteq> []"
  unfolding text_clauses_def py_or_def
  by (cases "dict_get request key (JList [])")
     (auto split: sum.splits dest!: multi_match_clauses_length)

lemma multi_match_clause_valid:
  "valid_text_query tq \<Longrightarrow> \<exists>c. multi_match_clause tq = Inr c"
  by (cases tq) (auto simp: multi_match_clause_def dict_item_def dict_has_def Let_def split: option.splits)

lemma multi_match_clauses_valid:
  "list_all valid_text_query tqs \<Longrightarrow> \<exists>cs. multi_match_clauses tqs acc = Inr cs"
proof (induction tqs arbitrary: acc)
  case Nil
  show ?case by simp
next
  case (Cons tq tqs)
  then obtain c where "multi_match_clause tq = Inr c"
    using multi_match_clause_valid by auto
  with Cons show ?case by simp
qed

lemma text_clauses_valid:
  assumes "valid_text_list (dict_get request key (JList []))"
  shows "\<exists>cs. text_clauses request key = Inr cs"
proof (cases "py_truthy (dict_get request key (JList []))")
  case False
  then show ?thesis by (simp add: text_clauses_empty)
next
  case True
  with assms obtain tqs where v: "dict_get request key (JList []) = JList tqs"
    by (cases "dict_get request key (JList [])") auto
  with assms have "list_all valid_text_query tqs" by simp
  then obtain cs where "multi_match_clauses tqs [] = Inr cs"
    using multi_match_clauses_valid by blast
  with v True show ?thesis by (simp add: text_clauses_def py_or_def)
qed

lemma build_bool_query_returns:
  assumes "valid_request request"
  shows "\<exists>q. build_bool_query request = Inr q"
proof -
  from assms obtain must where m: "text_clauses request ''must_text'' = Inr must"
    using text_clauses_valid by (auto simp: valid_request_def)
  from assms obtain should where s: "text_clauses request ''should_text'' = Inr should"
    using text_clauses_valid by (auto simp: valid_request_def)
  from assms have "\<exists>criteria. py_or (dict_get request ''criteria'' JNone) (JDict []) = JDict criteria"
    by (cases "dict_get request ''criteria'' JNone") (simp_all add: valid_request_def py_or_def)
  then obtain criteria where
    c: "py_or (dict_get request ''criteria'' JNone) (JDict []) = JDict criteria"
    by blast
  show ?thesis by (simp add: build_bool_query_def c m s Let_def)
qed

text \<open>
  C1. A well-formed request compiles. Whenever \<open>build_bool_query\<close> returns a query: if
  the request's should-list is empty (absent, \<open>None\<close> or \<open>[]\<close>), the query's
  \<open>minimum_should_match\<close> is 0 whatever the request supplied; if the should-list is not
  empty, it is the value of the request's \<open>minimum_should_match\<close> key, unchanged (1 when
  the key is absent).
\<close>

theorem build_bool_query_minimum_should_match:
  "(valid_request request \<longrightarrow> (\<exists>q. build_bool_query request = Inr q))
   \<and> (\<forall>q. build_bool_query request = Inr q \<longrightarrow>
        (\<not> py_truthy (dict_get request ''should_text'' (JList [])) \<longrightarrow>
           query_msm q = Some (JInt 0))
      \<and> (py_truthy (dict_get request ''should_text'' (JList [])) \<longrightarrow>
           query_msm q = Some (dict_get request ''minimum_should_match'' (JInt 1))))"
proof (intro conjI allI impI)
  assume "valid_request request"
  then show "\<exists>q. build_bool_query request = Inr q" by (rule build_bool_query_returns)
next
  fix q
  assume q: "build_bool_query request = Inr q"
    and e: "\<not> py_truthy (dict_get request ''should_text'' (JList []))"
  from e have "text_clauses request ''should_text'' = Inr []" by (rule text_clauses_empty)
  with q show "query_msm q = Some (JInt 0)"
    by (auto simp: build_bool_query_def query_msm_def Let_def split: json.splits sum.splits)
next
  fix q
  assume q: "build_bool_query request = Inr q"
    and n: "py_truthy (dict_get request ''should_text'' (JList []))"
  from q obtain should where s: "text_clauses request ''should_text'' = Inr should"
    by (auto simp: build_bool_query_def Let_def split: json.splits sum.splits)
  with n have "should \<noteq> []" by (rule text_clauses_nonempty)
  with q s show "query_msm q = Some (dict_get request ''minimum_should_match'' (JInt 1))"
    by (auto simp: build_bool_query_def query_msm_def Let_def split: json.splits sum.splits)
qed

theorem build_bool_query_minimum_should_match_witness:
  "build_bool_query [(''should_text'', JList []), (''minimum_should_match'', JInt (- 5))] =
     Inr (JDict [(''bool'', JDict [(''filter'', JList []), (''must'', JList []),
                 (''should'', JList []), (''minimum_should_match'', JInt 0)])])
   \<and> query_msm (JDict [(''bool'', JDict [(''filter'', JList []), (''must'', JList []),
                 (''should'', JList []), (''minimum_should_match'', JInt 0)])]) = Some (JInt 0)
   \<and> (\<exists>q. build_bool_query
              [(''should_text'', JList [JDict [(''query'', JStr ''fuel''),
                                               (''fields'', JList [JStr ''riskFactors''])]]),
               (''minimum_should_match'', JInt 7)] = Inr q
          \<and> query_msm q = Some (JInt 7))"
proof -
  let ?r1 = "[(''should_text'', JList []), (''minimum_should_match'', JInt (- 5))]"
  let ?q1 = "JDict [(''bool'', JDict [(''filter'', JList []), (''must'', JList []),
                 (''should'', JList []), (''minimum_should_match'', JInt 0)])]"
  let ?r2 = "[(''should_text'', JList [JDict [(''query'', JStr ''fuel''),
                                               (''fields'', JList [JStr ''riskFactors''])]]),
               (''minimum_should_match'', JInt 7)]"
  have h1: "build_bool_query ?r1 = Inr ?q1"
    by (simp add: build_bool_query_def text_clauses_def py_or_def dict_get_def
          criteria_filters_def facet_fields_list_def Let_def)
  have e1: "\<not> py_truthy (dict_get ?r1 ''should_text'' (JList []))"
    by (simp add: dict_get_def)
  have v2: "valid_request ?r2"
    by (simp add: valid_request_def dict_get_def dict_has_def)
  have n2: "py_truthy (dict_get ?r2 ''should_text'' (JList []))"
    by (simp add: dict_get_def)
  have m2: "dict_get ?r2 ''minimum_should_match'' (JInt 1) = JInt 7"
    by (simp add: dict_get_def)
  from build_bool_query_minimum_should_match [of ?r1] h1 e1
  have a: "query_msm ?q1 = Some (JInt 0)" by blast
  from build_bool_query_minimum_should_match [of ?r2] v2 n2 m2
  have b: "\<exists>q. build_bool_query ?r2 = Inr q \<and> query_msm q = Some (JInt 7)" by metis
  from h1 a b show ?thesis by blast
qed

subsection \<open>Facet filters\<close>








subsection \<open>Neutral boost\<close>

lemma multi_match_clause_cong:
  assumes "map_of d1 ''query'' = map_of d2 ''query''" "map_of d1 ''fields'' = map_of d2 ''fields''"
    "map_of d1 ''type'' = map_of d2 ''type''" "map_of d1 ''operator'' = map_of d2 ''operator''"
    "dict_get d1 ''boost'' JNone = JNone \<or> \<not> py_ne_float (dict_get d1 ''boost'' JNone) (Finite 1)"
    "dict_get d2 ''boost'' JNone = JNone \<or> \<not> py_ne_float (dict_get d2 ''boost'' JNone) (Finite 1)"
  shows "multi_match_clause (JDict d1) = multi_match_clause (JDict d2)"
  using assms
  by (auto simp: multi_match_clause_def dict_item_def dict_get_def Let_def split: option.splits)

text \<open>
  C3. A text query with \<open>boost\<close> set to 1.0 and the same text query with the \<open>boost\<close>
  key removed compile to the same result, and a clause compiled from the former has no
  \<open>boost\<close> key in its \<open>multi_match\<close> dictionary (so neither has the latter's).
\<close>

theorem multi_match_clause_boost_neutral:
  "multi_match_clause (JDict (AList.update ''boost'' (JFloat (Finite 1)) tq)) =
     multi_match_clause (JDict (AList.delete ''boost'' tq))
   \<and> (\<forall>c. multi_match_clause (JDict (AList.update ''boost'' (JFloat (Finite 1)) tq)) = Inr c
          \<longrightarrow> \<not> clause_has_boost c)"
proof
  show "multi_match_clause (JDict (AList.update ''boost'' (JFloat (Finite 1)) tq)) =
     multi_match_clause (JDict (AList.delete ''boost'' tq))"
    by (rule multi_match_clause_cong)
       (simp_all add: update_conv' delete_conv' dict_get_def py_ne_float_def)
next
  show "\<forall>c. multi_match_clause (JDict (AList.update ''boost'' (JFloat (Finite 1)) tq)) = Inr c
          \<longrightarrow> \<not> clause_has_boost c"
    by (auto simp: multi_match_clause_def dict_item_def dict_get_def Let_def update_conv'
          py_ne_float_def clause_has_boost_def split: option.splits)
qed

theorem multi_match_clause_boost_neutral_witness:
  "multi_match_clause (JDict [(''query'', JStr ''fuel''), (''fields'', JList [JStr ''riskFactors'']),
                              (''boost'', JFloat (Finite 1))]) =
     Inr (JDict [(''multi_match'', JDict [(''query'', JStr ''fuel''),
                   (''fields'', JList [JStr ''riskFactors'']),
                   (''type'', JStr ''best_fields''), (''operator'', JStr ''or'')])])
   \<and> multi_match_clause (JDict [(''query'', JStr ''fuel''), (''fields'', JList [JStr ''riskFactors''])]) =
     Inr (JDict [(''multi_match'', JDict [(''query'', JStr ''fuel''),
                   (''fields'', JList [JStr ''riskFactors'']),
                   (''type'', JStr ''best_fields''), (''operator'', JStr ''or'')])])
   \<and> \<not> clause_has_boost (JDict [(''multi_match'', JDict [(''query'', JStr ''fuel''),
                   (''fields'', JList [JStr ''riskFactors'']),
                   (''type'', JStr ''best_fields''), (''operator'', JStr ''or'')])])"
proof -
  let ?tq = "[(''query'', JStr ''fuel''), (''fields'', JList [JStr ''riskFactors''])]"
  let ?c = "JDict [(''multi_match'', JDict [(''query'', JStr ''fuel''),
                   (''fields'', JList [JStr ''riskFactors'']),
                   (''type'', JStr ''best_fields''), (''operator'', JStr ''or'')])]"
  have u: "AList.update ''boost'' (JFloat (Finite 1)) ?tq = ?tq @ [(''boost'', JFloat (Finite 1))]"
    by simp
  have d: "AList.delete ''boost'' ?tq = ?tq" by simp
  have r: "multi_match_clause (JDict ?tq) = Inr ?c"
    by (simp add: multi_match_clause_def dict_item_def dict_get_def Let_def)
  from multi_match_clause_boost_neutral [of ?tq] r show ?thesis
    unfolding u d by simp
qed

subsection \<open>Unknown criteria keys\<close>





section \<open>Properties of the client calls\<close>

subsection \<open>Lookup by id\<close>

text \<open>
  C9. When the engine's lookup raises \<open>NotFoundError\<close>, \<open>get_memo\<close> returns \<open>None\<close>;
  when the lookup returns a record, \<open>get_memo\<close> returns that record; and \<open>get_memo\<close>
  never raises \<open>NotFoundError\<close>.
\<close>

theorem get_memo_not_found:
  "(os_get (client self) (index self) doc_id source_includes = Inl NotFoundError \<longrightarrow>
      get_memo self doc_id source_includes = Inr JNone)
   \<and> (\<forall>doc. os_get (client self) (index self) doc_id source_includes = Inr doc \<longrightarrow>
      get_memo self doc_id source_includes = Inr doc)
   \<and> get_memo self doc_id source_includes \<noteq> Inl NotFoundError"
  by (auto simp: get_memo_def split: sum.splits)

theorem get_memo_not_found_witness:
  "get_memo \<lparr>index = ''memo'',
             client = \<lparr>os_search = (\<lambda>i b. Inl (TransportError ''down'')),
                       os_get = (\<lambda>i d s. if d = ''m1'' then Inr (JDict [(''_id'', JStr ''m1'')])
                                          else Inl NotFoundError),
                       os_write = (\<lambda>a. None)\<rparr>\<rparr> ''m2'' None = Inr JNone
   \<and> get_memo \<lparr>index = ''memo'',
             client = \<lparr>os_search = (\<lambda>i b. Inl (TransportError ''down'')),
                       os_get = (\<lambda>i d s. if d = ''m1'' then Inr (JDict [(''_id'', JStr ''m1'')])
                                          else Inl NotFoundError),
                       os_write = (\<lambda>a. None)\<rparr>\<rparr> ''m1'' None = Inr (JDict [(''_id'', JStr ''m1'')])"
proof -
  let ?self = "\<lparr>index = ''memo'',
             client = \<lparr>os_search = (\<lambda>i b. Inl (TransportError ''down'')),
                       os_get = (\<lambda>i d s. if d = ''m1'' then Inr (JDict [(''_id'', JStr ''m1'')])
                                          else Inl NotFoundError),
                       os_write = (\<lambda>a. None)\<rparr>\<rparr>"
  from get_memo_not_found [of ?self "''m2''" None] get_memo_not_found [of ?self "''m1''" None]
  show ?thesis by simp
qed

subsection \<open>Total hits\<close>

text \<open>
  C7. When the request compiles and the engine answers the search with a response whose
  \<open>hits.total\<close> is the integer \<open>n\<close>, or a dictionary whose \<open>value\<close> is the integer
  \<open>n\<close>, \<open>search\<close> returns an envelope whose \<open>total\<close> is the integer \<open>n\<close>.
\<close>

theorem search_total_normalised:
  assumes "build_bool_query request = Inr query"
    and "os_search (client self) (index self)
           (JDict (search_body request facets facet_fields query)) = Inr (JDict resp)"
    and "map_of resp ''hits'' = Some (JDict hits)"
    and "map_of hits ''total'' = Some (JInt n)
         \<or> (\<exists>t. map_of hits ''total'' = Some (JDict t) \<and> map_of t ''value'' = Some (JInt n))"
  shows "\<exists>env. search self request facets facet_fields = Inr env
               \<and> json_field env ''total'' = Some (JInt n)"
  using assms
  by (auto simp: search_def search_envelope_def Let_def dict_get_def)

theorem search_total_normalised_witness:
  "(\<exists>env. search \<lparr>index = ''memo'',
                  client = \<lparr>os_search = (\<lambda>i b. Inr (JDict [(''hits'',
                                JDict [(''total'', JInt 7), (''hits'', JList [])])])),
                            os_get = (\<lambda>i d s. Inl NotFoundError),
                            os_write = (\<lambda>a. None)\<rparr>\<rparr> [] False None = Inr env
          \<and> json_field env ''total'' = Some (JInt 7))
   \<and> (\<exists>env. search \<lparr>index = ''memo'',
                  client = \<lparr>os_search = (\<lambda>i b. Inr (JDict [(''hits'',
                                JDict [(''total'', JDict [(''value'', JInt 7), (''relation'', JStr ''eq'')]),
                                       (''hits'', JList [])])])),
                            os_get = (\<lambda>i d s. Inl NotFoundError),
                            os_write = (\<lambda>a. None)\<rparr>\<rparr> [] False None = Inr env
          \<and> json_field env ''total'' = Some (JInt 7))"
proof -
  let ?q = "JDict [(''bool'', JDict [(''filter'', JList []), (''must'', JList []),
                 (''should'', JList []), (''minimum_should_match'', JInt 0)])]"
  let ?h1 = "[(''total'', JInt 7), (''hits'', JList [])]"
  let ?h2 = "[(''total'', JDict [(''value'', JInt 7), (''relation'', JStr ''eq'')]),
              (''hits'', JList [])]"
  let ?s1 = "\<lparr>index = ''memo'',
                  client = \<lparr>os_search = (\<lambda>i b. Inr (JDict [(''hits'', JDict ?h1)])),
                            os_get = (\<lambda>i d s. Inl NotFoundError),
                            os_write = (\<lambda>a. None)\<rparr>\<rparr>"
  let ?s2 = "\<lparr>index = ''memo'',
                  client = \<lparr>os_search = (\<lambda>i b. Inr (JDict [(''hits'', JDict ?h2)])),
                            os_get = (\<lambda>i d s. Inl NotFoundError),
                            os_write = (\<lambda>a. None)\<rparr>\<rparr>"
  have q: "build_bool_query [] = Inr ?q"
    by (simp add: build_bool_query_def text_clauses_def py_or_def dict_get_def
          criteria_filters_def facet_fields_list_def Let_def)
  have a: "\<exists>env. search ?s1 [] False None = Inr env \<and> json_field env ''total'' = Some (JInt 7)"
    by (rule search_total_normalised [OF q, where resp = "[(''hits'', JDict ?h1)]" and hits = ?h1])
       simp_all
  have b: "\<exists>env. search ?s2 [] False None = Inr env \<and> json_field env ''total'' = Some (JInt 7)"
    by (rule search_total_normalised [OF q, where resp = "[(''hits'', JDict ?h2)]" and hits = ?h2])
       simp_all
  from a b show ?thesis by blast
qed

text \<open>
  C10. When the request compiles and the engine answers with a response whose \<open>hits\<close>
  dictionary has no \<open>total\<close> key, \<open>search\<close> returns the envelope with its five keys,
  and the envelope's \<open>total\<close> is \<open>None\<close>.
\<close>

theorem search_total_absent:
  assumes "build_bool_query request = Inr query"
    and "os_search (client self) (index self)
           (JDict (search_body request facets facet_fields query)) = Inr (JDict resp)"
    and "map_of resp ''hits'' = Some (JDict hits)"
    and "map_of hits ''total'' = None"
  shows "search self request facets facet_fields =
           Inr (JDict [(''total'', JNone),
                       (''hits'', dict_get hits ''hits'' (JList [])),
                       (''aggregations'', dict_get resp ''aggregations'' (JDict [])),
                       (''raw'', JDict resp),
                       (''query'', JDict (search_body request facets facet_fields query))])"
  using assms
  by (simp add: search_def search_envelope_def Let_def dict_get_def)

theorem search_total_absent_witness:
  "search \<lparr>index = ''memo'',
           client = \<lparr>os_search = (\<lambda>i b. Inr (JDict [(''hits'', JDict [(''hits'', JList [])])])),
                     os_get = (\<lambda>i d s. Inl NotFoundError),
                     os_write = (\<lambda>a. None)\<rparr>\<rparr> [] False None =
     Inr (JDict [(''total'', JNone),
                 (''hits'', JList []),
                 (''aggregations'', JDict []),
                 (''raw'', JDict [(''hits'', JDict [(''hits'', JList [])])]),
                 (''query'', JDict [
                    (''query'', JDict [(''bool'', JDict [(''filter'', JList []), (''must'', JList []),
                        (''should'', JList []), (''minimum_should_match'', JInt 0)])]),
                    (''size'', JInt 10), (''from'', JInt 0),
                    (''track_total_hits'', JBool True)])])"
proof -
  let ?q = "JDict [(''bool'', JDict [(''filter'', JList []), (''must'', JList []),
                 (''should'', JList []), (''minimum_should_match'', JInt 0)])]"
  let ?h = "[(''hits'', JList [])]"
  let ?s = "\<lparr>index = ''memo'',
           client = \<lparr>os_search = (\<lambda>i b. Inr (JDict [(''hits'', JDict ?h)])),
                     os_get = (\<lambda>i d s. Inl NotFoundError),
                     os_write = (\<lambda>a. None)\<rparr>\<rparr>"
  have q: "build_bool_query [] = Inr ?q"
    by (simp add: build_bool_query_def text_clauses_def py_or_def dict_get_def
          criteria_filters_def facet_fields_list_def Let_def)
  have "search ?s [] False None =
           Inr (JDict [(''total'', JNone),
                       (''hits'', dict_get ?h ''hits'' (JList [])),
                       (''aggregations'', dict_get [(''hits'', JDict ?h)] ''aggregations'' (JDict [])),
                       (''raw'', JDict [(''hits'', JDict ?h)]),
                       (''query'', JDict (search_body [] False None ?q))])"
    by (rule search_total_absent [OF q, where hits = ?h]) simp_all
  then show ?thesis
    by (simp add: dict_get_def search_body_def Let_def)
qed

subsection \<open>Bulk upsert\<close>

lemma concat_chunk_actions: "concat (chunk_actions n xs) = xs"
proof (induction n xs rule: chunk_actions.induct)
  case (1 n xs)
  show ?case
  proof (cases "xs = [] \<or> n = 0")
    case True
    then show ?thesis by (auto simp: chunk_actions.simps [of n xs])
  next
    case False
    with 1 have "concat (chunk_actions n (drop n xs)) = drop n xs" by simp
    with False show ?thesis by (simp add: chunk_actions.simps [of n xs])
  qed
qed

lemma map_filter_id_map: "List.map_filter (\<lambda>item. item) (map f xs) = List.map_filter f xs"
  by (induction xs) (simp_all split: option.splits)

lemma map_filter_append:
  "List.map_filter f (xs @ ys) = List.map_filter f xs @ List.map_filter f ys"
  by (simp add: List.map_filter_def)

lemma bulk_loop_lenient:
  "bulk_loop write False chunks success errors =
     Inr (success + length (filter (\<lambda>a. write a = None) (concat chunks)),
          errors @ List.map_filter write (concat chunks))"
proof (induction chunks arbitrary: success errors)
  case Nil
  show ?case by simp
next
  case (Cons chunk rest)
  show ?case
    by (simp add: Let_def Cons.IH map_filter_id_map map_filter_append comp_def)
qed

lemma helpers_bulk_lenient:
  "helpers_bulk write actions chunk_size False =
     Inr (length (filter (\<lambda>a. write a = None) actions), List.map_filter write actions)"
  by (simp add: helpers_bulk_def bulk_loop_lenient concat_chunk_actions)

lemma gen_actions_eq:
  "gen_actions self docs =
     map (\<lambda>d. JDict [(''_op_type'', JStr ''index''), (''_index'', JStr (index self)),
                      (''_id'', JStr (fst d)), (''_source'', snd d)]) docs"
  by (simp add: gen_actions_def case_prod_beta)

lemma count_ok_map:
  "length (filter (\<lambda>a. w a = None) (map f xs)) = length (filter (\<lambda>d. w (f d) = None) xs)"
  by (induction xs) simp_all

lemma map_filter_map: "List.map_filter w (map f xs) = List.map_filter (\<lambda>d. w (f d)) xs"
  by (induction xs) (simp_all split: option.splits)

lemma ok_plus_failed: "length (filter (\<lambda>d. g d = None) xs) + length (List.map_filter g xs) = length xs"
  by (induction xs) (auto split: option.splits)

text \<open>
  C4. For every batch \<open>docs\<close> of pairs of a document id and a document, and every chunk
  size, \<open>bulk_upsert\<close> returns an outcome and does not raise. Each pair \<open>(doc_id, doc)\<close>
  of the batch is sent as the action
  \<open>{"_op_type": "index", "_index": self.index, "_id": doc_id, "_source": doc}\<close>;
  \<open>success\<close> is the number of documents of the batch whose action the engine accepted,
  \<open>errors\<close> is the list of the error descriptors of all the documents whose action it
  rejected, in the order of the batch, and every document of the batch is either counted
  or reported.
\<close>

theorem bulk_upsert_outcome:
  "bulk_upsert self docs chunk_size =
     Inr (JDict
       [(''success'',
          JInt (int (length (filter
            (\<lambda>d. os_write (client self)
                    (JDict [(''_op_type'', JStr ''index''), (''_index'', JStr (index self)),
                            (''_id'', JStr (fst d)), (''_source'', snd d)]) = None) docs)))),
        (''errors'',
          JList (List.map_filter
            (\<lambda>d. os_write (client self)
                    (JDict [(''_op_type'', JStr ''index''), (''_index'', JStr (index self)),
                            (''_id'', JStr (fst d)), (''_source'', snd d)])) docs))])
   \<and> length (filter
         (\<lambda>d. os_write (client self)
                 (JDict [(''_op_type'', JStr ''index''), (''_index'', JStr (index self)),
                         (''_id'', JStr (fst d)), (''_source'', snd d)]) = None) docs)
     + length (List.map_filter
         (\<lambda>d. os_write (client self)
                 (JDict [(''_op_type'', JStr ''index''), (''_index'', JStr (index self)),
                         (''_id'', JStr (fst d)), (''_source'', snd d)])) docs)
     = length docs"
proof
  show "bulk_upsert self docs chunk_size =
     Inr (JDict
       [(''success'',
          JInt (int (length (filter
            (\<lambda>d. os_write (client self)
                    (JDict [(''_op_type'', JStr ''index''), (''_index'', JStr (index self)),
                            (''_id'', JStr (fst d)), (''_source'', snd d)]) = None) docs)))),
        (''errors'',
          JList (List.map_filter
            (\<lambda>d. os_write (client self)
                    (JDict [(''_op_type'', JStr ''index''), (''_index'', JStr (index self)),
                            (''_id'', JStr (fst d)), (''_source'', snd d)])) docs))])"
    unfolding bulk_upsert_def helpers_bulk_lenient gen_actions_eq count_ok_map map_filter_map
    by simp
next
  show "length (filter
         (\<lambda>d. os_write (client self)
                 (JDict [(''_op_type'', JStr ''index''), (''_index'', JStr (index self)),
                         (''_id'', JStr (fst d)), (''_source'', snd d)]) = None) docs)
     + length (List.map_filter
         (\<lambda>d. os_write (client self)
                 (JDict [(''_op_type'', JStr ''index''), (''_index'', JStr (index self)),
                         (''_id'', JStr (fst d)), (''_source'', snd d)])) docs)
     = length docs"
    by (rule ok_plus_failed)
qed

theorem bulk_upsert_outcome_witness:
  "bulk_upsert \<lparr>index = ''memo'',
                client = \<lparr>os_search = (\<lambda>i b. Inl (TransportError ''down'')),
                          os_get = (\<lambda>i d s. Inl NotFoundError),
                          os_write = (\<lambda>a. if json_field a ''_id'' = Some (JStr ''m2'')
                                           then Some (JStr ''mapper_parsing_exception'') else None)\<rparr>\<rparr>
     [(''m1'', JDict []), (''m2'', JDict []), (''m3'', JDict []), (''m4'', JDict [])] 2 =
   Inr (JDict [(''success'', JInt 3), (''errors'', JList [JStr ''mapper_parsing_exception''])])"
proof -
  let ?s = "\<lparr>index = ''memo'',
                client = \<lparr>os_search = (\<lambda>i b. Inl (TransportError ''down'')),
                          os_get = (\<lambda>i d s. Inl NotFoundError),
                          os_write = (\<lambda>a. if json_field a ''_id'' = Some (JStr ''m2'')
                                           then Some (JStr ''mapper_parsing_exception'') else None)\<rparr>\<rparr>"
  from bulk_upsert_outcome
         [of ?s "[(''m1'', JDict []), (''m2'', JDict []), (''m3'', JDict []), (''m4'', JDict [])]" 2]
  show ?thesis
    by simp
qed

text \<open>
  C6. For any two positive chunk sizes, \<open>bulk_upsert\<close> returns the same outcome on the same
  batch: the same success count and the same list of errors.
\<close>

theorem bulk_upsert_chunk_size_irrelevant:
  assumes "0 < chunk_size1" and "0 < chunk_size2"
  shows "bulk_upsert self docs chunk_size1 = bulk_upsert self docs chunk_size2"
  by (simp add: bulk_upsert_def helpers_bulk_lenient)

theorem bulk_upsert_chunk_size_irrelevant_witness:
  "(0::nat) < 1 \<and> (0::nat) < 500
   \<and> bulk_upsert \<lparr>index = ''memo'',
                client = \<lparr>os_search = (\<lambda>i b. Inl (TransportError ''down'')),
                          os_get = (\<lambda>i d s. Inl NotFoundError),
                          os_write = (\<lambda>a. if json_field a ''_id'' = Some (JStr ''m2'')
                                           then Some (JStr ''mapper_parsing_exception'') else None)\<rparr>\<rparr>
       [(''m1'', JDict []), (''m2'', JDict []), (''m3'', JDict [])] 1 =
     bulk_upsert \<lparr>index = ''memo'',
                client = \<lparr>os_search = (\<lambda>i b. Inl (TransportError ''down'')),
                          os_get = (\<lambda>i d s. Inl NotFoundError),
                          os_write = (\<lambda>a. if json_field a ''_id'' = Some (JStr ''m2'')
                                           then Some (JStr ''mapper_parsing_exception'') else None)\<rparr>\<rparr>
       [(''m1'', JDict []), (''m2'', JDict []), (''m3'', JDict [])] 500"
proof -
  have a: "(0::nat) < 1" and b: "(0::nat) < 500" by simp_all
  from bulk_upsert_chunk_size_irrelevant [OF a b] a b show ?thesis by blast
qed

section \<open>Properties of the ingestion utility\<close>

lemma collect_errors_wf:
  assumes "\<forall>it \<in> set items. wf_item it" and "length errors < 3"
  shows "collect_errors items errors = Inr (take 3 (errors @ List.map_filter item_error items))"
  using assms
proof (induction items arbitrary: errors)
  case Nil
  then show ?case by simp
next
  case (Cons it items)
  from Cons.prems(1) have "wf_item it" by simp
  then obtain op action rest where it: "it = JDict ((op, JDict action) # rest)"
    by (elim wf_item.elims) auto
  show ?case
  proof (cases "map_of action ''error''")
    case None
    with it Cons show ?thesis
      by (simp add: dict_has_def)
  next
    case (Some payload)
    show ?thesis
    proof (cases "length errors = 2")
      case True
      with it Some show ?thesis
        by (simp add: dict_has_def dict_item_def)
    next
      case False
      with Cons.prems(2) have "length (errors @ [payload]) < 3" by simp
      with Cons.prems(1) have "collect_errors items (errors @ [payload]) =
          Inr (take 3 ((errors @ [payload]) @ List.map_filter item_error items))"
        by (intro Cons.IH) simp_all
      with it Some False Cons.prems(2) show ?thesis
        by (simp add: dict_has_def dict_item_def)
    qed
  qed
qed

text \<open>
  C5. Let the bulk request be answered with a success status and a JSON dictionary. If its
  \<open>errors\<close> flag is not set, \<open>bulk_index\<close> returns normally. If the flag is set,
  \<open>bulk_index\<close> raises; and when the \<open>items\<close> are a list of items of the engine's
  protocol, what it raises is the \<open>RuntimeError\<close> whose sample is the error payloads of
  the first three failed items, in their order (fewer when fewer items failed), so at most
  3 payloads.
\<close>

theorem bulk_index_strict:
  assumes "requests_post (rstrip_slash OPENSEARCH_URL @ ''/_bulk'')
             (join_newline ndjson_lines @ [CHR 0x0A]) = Inr resp"
    and "raise_for_status resp = Inr ()"
    and "json_body resp = Some (JDict result)"
  shows "(\<not> py_truthy (dict_get result ''errors'' JNone) \<longrightarrow>
            bulk_index requests_post OPENSEARCH_URL ndjson_lines = Inr ())
       \<and> (py_truthy (dict_get result ''errors'' JNone) \<longrightarrow>
            (\<exists>e. bulk_index requests_post OPENSEARCH_URL ndjson_lines = Inl e))
       \<and> (py_truthy (dict_get result ''errors'' JNone)
            \<and> dict_get result ''items'' (JList []) = JList items
            \<and> (\<forall>it \<in> set items. wf_item it) \<longrightarrow>
            bulk_index requests_post OPENSEARCH_URL ndjson_lines =
              Inl (RuntimeError (take 3 (List.map_filter item_error items)))
            \<and> length (take 3 (List.map_filter item_error items)) \<le> 3)"
proof (intro conjI impI)
  assume "\<not> py_truthy (dict_get result ''errors'' JNone)"
  with assms show "bulk_index requests_post OPENSEARCH_URL ndjson_lines = Inr ()"
    by (simp add: bulk_index_def Let_def)
next
  assume "py_truthy (dict_get result ''errors'' JNone)"
  with assms show "\<exists>e. bulk_index requests_post OPENSEARCH_URL ndjson_lines = Inl e"
    by (simp add: bulk_index_def Let_def split: sum.splits)
next
  assume a: "py_truthy (dict_get result ''errors'' JNone)
            \<and> dict_get result ''items'' (JList []) = JList items
            \<and> (\<forall>it \<in> set items. wf_item it)"
  then have "collect_errors items [] = Inr (take 3 ([] @ List.map_filter item_error items))"
    by (intro collect_errors_wf) simp_all
  with assms a show "bulk_index requests_post OPENSEARCH_URL ndjson_lines =
      Inl (RuntimeError (take 3 (List.map_filter item_error items)))"
    by (simp add: bulk_index_def Let_def)
next
  show "length (take 3 (List.map_filter item_error items)) \<le> 3" by simp
qed

theorem bulk_index_strict_witness:
  "bulk_index (\<lambda>url payload. Inr \<lparr>status_code = 200, json_body = Some (JDict
       [(''errors'', JBool True),
        (''items'', JList
          [JDict [(''index'', JDict [(''_id'', JStr ''m1''), (''status'', JInt 201)])],
           JDict [(''index'', JDict [(''_id'', JStr ''m2''), (''error'', JStr ''e2'')])],
           JDict [(''index'', JDict [(''_id'', JStr ''m3''), (''error'', JStr ''e3'')])],
           JDict [(''index'', JDict [(''_id'', JStr ''m4''), (''status'', JInt 201)])],
           JDict [(''index'', JDict [(''_id'', JStr ''m5''), (''error'', JStr ''e5'')])],
           JDict [(''index'', JDict [(''_id'', JStr ''m6''), (''error'', JStr ''e6'')])]])])\<rparr>)
     ''http://localhost:9200/'' [''{}''] =
   Inl (RuntimeError [JStr ''e2'', JStr ''e3'', JStr ''e5''])
   \<and> bulk_index (\<lambda>url payload. Inr \<lparr>status_code = 200, json_body = Some (JDict
       [(''errors'', JBool False), (''items'', JList [])])\<rparr>)
     ''http://localhost:9200/'' [''{}''] = Inr ()"
proof -
  let ?items = "[JDict [(''index'', JDict [(''_id'', JStr ''m1''), (''status'', JInt 201)])],
           JDict [(''index'', JDict [(''_id'', JStr ''m2''), (''error'', JStr ''e2'')])],
           JDict [(''index'', JDict [(''_id'', JStr ''m3''), (''error'', JStr ''e3'')])],
           JDict [(''index'', JDict [(''_id'', JStr ''m4''), (''status'', JInt 201)])],
           JDict [(''index'', JDict [(''_id'', JStr ''m5''), (''error'', JStr ''e5'')])],
           JDict [(''index'', JDict [(''_id'', JStr ''m6''), (''error'', JStr ''e6'')])]]"
  let ?r1 = "[(''errors'', JBool True), (''items'', JList ?items)]"
  let ?r2 = "[(''errors'', JBool False), (''items'', JList [])]"
  let ?resp1 = "\<lparr>status_code = 200, json_body = Some (JDict ?r1)\<rparr>"
  let ?resp2 = "\<lparr>status_code = 200, json_body = Some (JDict ?r2)\<rparr>"
  have s1: "raise_for_status ?resp1 = Inr ()" and s2: "raise_for_status ?resp2 = Inr ()"
    by (simp_all add: raise_for_status_def)
  have f1: "py_truthy (dict_get ?r1 ''errors'' JNone)"
    and i1: "dict_get ?r1 ''items'' (JList []) = JList ?items"
    and w1: "\<forall>it \<in> set ?items. wf_item it"
    and f2: "\<not> py_truthy (dict_get ?r2 ''errors'' JNone)"
    by (simp_all add: dict_get_def)
  have t: "take 3 (List.map_filter item_error ?items) = [JStr ''e2'', JStr ''e3'', JStr ''e5'']"
    by simp
  have a: "bulk_index (\<lambda>url payload. Inr ?resp1) ''http://localhost:9200/'' [''{}''] =
             Inl (RuntimeError (take 3 (List.map_filter item_error ?items)))"
    using bulk_index_strict [of "\<lambda>url payload. Inr ?resp1" "''http://localhost:9200/''" "[''{}'']"
        ?resp1 ?r1 ?items, OF refl s1] f1 i1 w1
    by simp
  have b: "bulk_index (\<lambda>url payload. Inr ?resp2) ''http://localhost:9200/'' [''{}''] = Inr ()"
    using bulk_index_strict [of "\<lambda>url payload. Inr ?resp2" "''http://localhost:9200/''" "[''{}'']"
        ?resp2 ?r2 "[]", OF refl s2] f2
    by simp
  from a b t show ?thesis by simp
qed

end
